theory Spec2Isabelle
  imports Main
begin

section \<open>The bot's data\<close>

text \<open>
  The program is one Python module, \<^verbatim>\<open>main.py\<close>: six chat handlers around a MongoDB
  database, a generative-AI client and an HTTP search API. The embedding keeps the
  module's three collections as lists of documents, a document as the list of its
  key/value pairs in insertion order (a Python dict), and threads them through every
  function in a \<open>world\<close> record. Whatever a function does to the outside
  (a stored or changed document, a message sent, an HTTP request, a log line) is also
  appended to the world's \<open>effects\<close>, so that the order of the actions can be read off.

  The collaborators that the handlers call and that may raise (the AI client, the file
  download, the image decoder, the HTTP client) are functions of an \<open>env\<close> record,
  each returning either the raised exception (\<open>Inl\<close>) or its value (\<open>Inr\<close>).
  Two handlers call the database driver and \<^verbatim>\<open>reply_text\<close> inside a
  \<^verbatim>\<open>try\<close> block, where an exception of theirs is caught and changes what the handler
  does: there \<open>insert_one_raises\<close> and \<open>reply_text_raises\<close> of the \<open>env\<close> say
  whether the call raises. Everywhere else, the \<^verbatim>\<open>except\<close> branches included, the
  driver and \<^verbatim>\<open>reply_text\<close> are modelled by what they do when they succeed. The
  \<^verbatim>\<open>_id\<close> key that the driver adds to an inserted document is left out.
\<close>

type_synonym timestamp = nat

datatype pyvalue = VNone | VInt int | VStr string | VTime timestamp

type_synonym document = "(string \<times> pyvalue) list"

datatype exn = IndexError | AttributeError | Failure string

datatype collection_name = Users | Chat_history | File_metadata

record KeyboardButton =
  button_text :: string
  request_contact :: bool

datatype reply_markup =
    ReplyKeyboardMarkup "KeyboardButton list list" (one_time_keyboard: bool) (resize_keyboard: bool)
  | ReplyKeyboardRemove

datatype effect =
    Inserted collection_name document
  | Modified collection_name document
  | Sent int string "reply_markup option"
  | HttpGet string "(string \<times> string option) list"
  | LogInfo string
  | LogError string

record world =
  collection :: "document list"
  chat_history_collection :: "document list"
  file_metadata_collection :: "document list"
  effects :: "effect list"

record tg_user =
  user_id :: int
  first_name :: string
  username :: "string option"

datatype attachment =
    Document (file_id: string) (file_name: "string option")
  | PhotoSize (file_id: string)

text \<open>
  \<open>update.message\<close>, with the attributes the handlers read. \<open>msg_text\<close> (the
  attribute \<^verbatim>\<open>text\<close>),
  \<open>contact\<close> (its phone number) and \<open>document\<close> are \<open>None\<close> on a message
  that has none; \<open>photo\<close> is the empty tuple then.
\<close>

record message =
  from_user :: tg_user
  chat_id :: int
  msg_text :: "string option"
  contact :: "string option"
  document :: "attachment option"
  photo :: "attachment list"

datatype file_info = File (file_path: string)

type_synonym bytes = "nat list"

datatype image = Image bytes

type_synonym search_result = "(string \<times> string option) list"

text \<open>
  The search provider's answer: the status code and, of the JSON body, the value under
  \<^verbatim>\<open>organic_results\<close> (\<open>None\<close> when the body has no such key): a list of objects
  whose values are strings or \<^verbatim>\<open>null\<close>.
\<close>

record response =
  status_code :: int
  organic_results :: "search_result list option"

record env =
  now :: timestamp
  serp_api_key :: "string option"
  send_message :: "string option \<Rightarrow> exn + string"
  get_file :: "string \<Rightarrow> exn + file_info"
  download_as_bytearray :: "file_info \<Rightarrow> exn + bytes"
  image_open :: "bytes \<Rightarrow> exn + image"
  generate_content :: "string \<Rightarrow> image \<Rightarrow> exn + string"
  requests_get :: "string \<Rightarrow> (string \<times> string option) list \<Rightarrow> exn + response"
  insert_one_raises :: "document \<Rightarrow> exn option"
  reply_text_raises :: "string \<Rightarrow> exn option"

section \<open>Python and driver primitives\<close>

text \<open>What an f-string prints for an optional string: the string, or \<^verbatim>\<open>None\<close>.\<close>

fun py_str :: "string option \<Rightarrow> string" where
  "py_str None = ''None''"
| "py_str (Some s) = s"

fun opt_value :: "string option \<Rightarrow> pyvalue" where
  "opt_value None = VNone"
| "opt_value (Some s) = VStr s"

text \<open>\<^verbatim>\<open>str(e)\<close> of an exception is its message.\<close>

fun exn_str :: "exn \<Rightarrow> string" where
  "exn_str IndexError = ''tuple index out of range''"
| "exn_str AttributeError = '''NoneType' object has no attribute''"
| "exn_str (Failure m) = m"

text \<open>\<^verbatim>\<open>sep.join(xs)\<close>.\<close>

fun join :: "string \<Rightarrow> string list \<Rightarrow> string" where
  "join sep [] = []"
| "join sep [x] = x"
| "join sep (x # y # ys) = x @ sep @ join sep (y # ys)"

text \<open>\<^verbatim>\<open>d.get(k, default)\<close> and \<^verbatim>\<open>d.get(k)\<close> on a search result.\<close>

definition get_default :: "search_result \<Rightarrow> string \<Rightarrow> string option \<Rightarrow> string option" where
  "get_default d k dflt = (case map_of d k of None \<Rightarrow> dflt | Some v \<Rightarrow> v)"

text \<open>
  A filter \<^verbatim>\<open>{key: value}\<close> matches a document that has the value under the key.
  \<open>find_one\<close> gives the first match; \<open>insert_one\<close> appends; \<open>update_one\<close> with
  \<^verbatim>\<open>$set\<close> rewrites the field in the first match and leaves the list alone when
  nothing matches.
\<close>

definition matches :: "string \<Rightarrow> pyvalue \<Rightarrow> document \<Rightarrow> bool" where
  "matches k v d = (map_of d k = Some v)"

definition find_one :: "string \<Rightarrow> pyvalue \<Rightarrow> document list \<Rightarrow> document option" where
  "find_one k v docs = find (matches k v) docs"

definition insert_one :: "document \<Rightarrow> document list \<Rightarrow> document list" where
  "insert_one d docs = docs @ [d]"

fun set_field :: "string \<Rightarrow> pyvalue \<Rightarrow> document \<Rightarrow> document" where
  "set_field k v [] = [(k, v)]"
| "set_field k v ((k', v') # d) =
     (if k' = k then (k, v) # d else (k', v') # set_field k v d)"

fun update_one :: "string \<Rightarrow> pyvalue \<Rightarrow> string \<Rightarrow> pyvalue \<Rightarrow> document list \<Rightarrow> document list" where
  "update_one k v f x [] = []"
| "update_one k v f x (d # docs) =
     (if matches k v d then set_field f x d # docs else d # update_one k v f x docs)"

text \<open>Python's truth value of what \<open>find_one\<close> returns: \<open>None\<close> and the empty dict are false.\<close>

fun truthy :: "document option \<Rightarrow> bool" where
  "truthy None = False"
| "truthy (Some d) = (d \<noteq> [])"

definition emit :: "effect \<Rightarrow> world \<Rightarrow> world" where
  "emit e w = w\<lparr>effects := effects w @ [e]\<rparr>"

definition reply_text :: "message \<Rightarrow> string \<Rightarrow> reply_markup option \<Rightarrow> world \<Rightarrow> world" where
  "reply_text msg s markup w = emit (Sent (chat_id msg) s markup) w"

section \<open>The handlers\<close>

definition register_user :: "int \<Rightarrow> string \<Rightarrow> string option \<Rightarrow> world \<Rightarrow> world" where
  "register_user uid fname uname w =
     (if \<not> truthy (find_one ''chat_id'' (VInt uid) (collection w)) then
        let user_data = [(''chat_id'', VInt uid),
                         (''first_name'', VStr fname),
                         (''username'', opt_value uname),
                         (''phone_number'', VNone)];
            w1 = emit (Inserted Users user_data)
                   (w\<lparr>collection := insert_one user_data (collection w)\<rparr>)
        in emit (LogInfo (''Registered new user: '' @ fname @ '' (@'' @ py_str uname @ '')'')) w1
      else w)"

definition start :: "message \<Rightarrow> world \<Rightarrow> (exn + int) \<times> world" where
  "start msg w =
     (let user = from_user msg;
          w1 = register_user (user_id user) (first_name user) (username user) w;
          phone_button = \<lparr>button_text = ''Share my phone number'', request_contact = True\<rparr>;
          markup = ReplyKeyboardMarkup [[phone_button]] True True
      in (Inr 0,
          reply_text msg
            ''Welcome to the User Registration Bot! Please share your phone number to continue.''
            (Some markup) w1))"

definition handle_contact :: "message \<Rightarrow> world \<Rightarrow> (exn + int) \<times> world" where
  "handle_contact msg w =
     (let user = from_user msg in
      case contact msg of
        None \<Rightarrow> (Inl AttributeError, w)
      | Some phone_number \<Rightarrow>
          let docs = update_one ''chat_id'' (VInt (user_id user))
                       ''phone_number'' (VStr phone_number) (collection w);
              w1 = (case find_one ''chat_id'' (VInt (user_id user)) (collection w) of
                      None \<Rightarrow> w\<lparr>collection := docs\<rparr>
                    | Some d \<Rightarrow>
                        emit (Modified Users (set_field ''phone_number'' (VStr phone_number) d))
                          (w\<lparr>collection := docs\<rparr>))
          in (Inr 0,
              reply_text msg
                (''Thank you for sharing your phone number: '' @ phone_number
                   @ ''. Registration complete!'')
                None w1))"

definition cancel :: "message \<Rightarrow> world \<Rightarrow> (exn + int) \<times> world" where
  "cancel msg w =
     (Inr 0, reply_text msg ''Bye! Hope to talk to you again soon.'' (Some ReplyKeyboardRemove) w)"

text \<open>
  \<open>send_message env\<close> stands for the three lines that build the model, start a chat
  with an empty history and read the text of the answer to \<open>user_input\<close>. The
  \<^verbatim>\<open>try\<close> block holds them, the insert into the conversation log and the reply with
  the answer; whichever of the three raises, the \<^verbatim>\<open>except\<close> branch logs and
  apologises, in the world the block has reached by then.
\<close>

definition gemini_query :: "env \<Rightarrow> message \<Rightarrow> world \<Rightarrow> (exn + unit) \<times> world" where
  "gemini_query env msg w =
     (let user_input = msg_text msg;
          chat = chat_id msg;
          except = (\<lambda>e w'.
            (Inr (),
             reply_text msg
               ''Sorry, I couldn't process your request right now. Please try again later.''
               None (emit (LogError (''Error with Gemini API: '' @ exn_str e)) w')))
      in case send_message env user_input of
           Inl e \<Rightarrow> except e w
         | Inr bot_response \<Rightarrow>
             let chat_history = [(''chat_id'', VInt chat),
                                 (''user_input'', opt_value user_input),
                                 (''bot_response'', VStr bot_response),
                                 (''timestamp'', VTime (now env))]
             in (case insert_one_raises env chat_history of
                   Some e \<Rightarrow> except e w
                 | None \<Rightarrow>
                     let w1 = emit (Inserted Chat_history chat_history)
                                (w\<lparr>chat_history_collection :=
                                     insert_one chat_history (chat_history_collection w)\<rparr>)
                     in (case reply_text_raises env bot_response of
                           Some e \<Rightarrow> except e w1
                         | None \<Rightarrow> (Inr (), reply_text msg bot_response None w1))))"

text \<open>
  \<^verbatim>\<open>update.message.document or update.message.photo[-1]\<close>: the document when there
  is one, else the last photo size, and \<^verbatim>\<open>IndexError\<close> on an empty tuple.
\<close>

definition select_file :: "message \<Rightarrow> exn + attachment" where
  "select_file msg =
     (case document msg of
        Some d \<Rightarrow> Inr d
      | None \<Rightarrow> (case photo msg of [] \<Rightarrow> Inl IndexError | p # ps \<Rightarrow> Inr (last (p # ps))))"

text \<open>Only a document has the attribute \<^verbatim>\<open>file_name\<close> (which may hold \<open>None\<close>).\<close>

fun file_name_of :: "attachment \<Rightarrow> pyvalue" where
  "file_name_of (Document fid n) = opt_value n"
| "file_name_of (PhotoSize fid) = VStr (''image_'' @ fid @ ''.jpg'')"

definition handle_file :: "env \<Rightarrow> message \<Rightarrow> world \<Rightarrow> (exn + unit) \<times> world" where
  "handle_file env msg w =
     (case select_file msg of
        Inl e \<Rightarrow> (Inl e, w)
      | Inr file \<Rightarrow>
     (case get_file env (file_id file) of
        Inl e \<Rightarrow> (Inl e, w)
      | Inr file_info \<Rightarrow>
     (let file_name = file_name_of file in
      case download_as_bytearray env file_info of
        Inl e \<Rightarrow> (Inl e, w)
      | Inr raw \<Rightarrow>
     (case image_open env raw of
        Inl e \<Rightarrow> (Inl e, w)
      | Inr file_data \<Rightarrow>
     (let prompt = ''Analyse this image and generate response'';
          except = (\<lambda>e w'.
            (Inr (),
             reply_text msg
               ''Sorry, I couldn't analyze the file right now. Please try again later.''
               None (emit (LogError (''Error analyzing file with Gemini: '' @ exn_str e)) w')))
      in case generate_content env prompt file_data of
        Inl e \<Rightarrow> except e w
      | Inr description \<Rightarrow>
          let file_metadata = [(''file_id'', VStr (file_id file)),
                               (''file_name'', file_name),
                               (''description'', VStr description),
                               (''timestamp'', VTime (now env))]
          in (case insert_one_raises env file_metadata of
                Some e \<Rightarrow> except e w
              | None \<Rightarrow>
                  let w1 = emit (Inserted File_metadata file_metadata)
                             (w\<lparr>file_metadata_collection :=
                                  insert_one file_metadata (file_metadata_collection w)\<rparr>);
                      answer = ''Here is what I found in the image:\<newline>\<newline>'' @ description
                  in (case reply_text_raises env answer of
                        Some e \<Rightarrow> except e w1
                      | None \<Rightarrow> (Inr (), reply_text msg answer None w1))))))))"

definition web_search :: "env \<Rightarrow> string \<Rightarrow> int \<Rightarrow> world \<Rightarrow> (exn + string) \<times> world" where
  "web_search env query chat w =
     (let api_key = serp_api_key env;
          url = ''https://serpapi.com/search'';
          params = [(''q'', Some query), (''api_key'', api_key)];
          w1 = emit (HttpGet url params) w
      in case requests_get env url params of
           Inl e \<Rightarrow> (Inl e, w1)
         | Inr response \<Rightarrow>
             if status_code response = 200 then
               (case (case organic_results response of None \<Rightarrow> [] | Some rs \<Rightarrow> rs) of
                  [] \<Rightarrow> (Inr ''Sorry, I couldn't find relevant results for your query.'', w1)
                | top_result # rest \<Rightarrow>
                    let summary =
                          ''Here is a summary for your query:\<newline>\<newline>''
                          @ (py_str (get_default top_result ''snippet''
                                       (Some ''No summary available''))
                             @ ''...\<newline>\<newline>'')
                          @ (''For more details, check the full article here: ''
                             @ py_str (get_default top_result ''link'' None));
                        websearch_history = [(''chat_id'', VInt chat),
                                             (''query'', VStr query),
                                             (''summary'', VStr summary),
                                             (''timestamp'', VTime (now env))];
                        w2 = emit (Inserted Chat_history websearch_history)
                               (w1\<lparr>chat_history_collection :=
                                     insert_one websearch_history (chat_history_collection w1)\<rparr>)
                    in (Inr summary, w2))
             else (Inr ''Sorry, I encountered an error while fetching search results.'', w1))"

text \<open>\<open>args\<close> is \<^verbatim>\<open>context.args\<close>, the words that follow the command.\<close>

definition websearch :: "env \<Rightarrow> message \<Rightarrow> string list \<Rightarrow> world \<Rightarrow> (exn + unit) \<times> world" where
  "websearch env msg args w =
     (let chat = chat_id msg;
          user_input = join '' '' args
      in if user_input = [] then
           (Inr (),
            reply_text msg
              ''Please provide a query to search for. Usage: /websearch <your_query>'' None w)
         else
           (case web_search env user_input chat w of
              (Inl e, w1) \<Rightarrow> (Inl e, w1)
            | (Inr search_results, w1) \<Rightarrow> (Inr (), reply_text msg search_results None w1)))"

section \<open>The shape of a stored document\<close>

text \<open>
  What kind of value a document holds under each of its keys, in the order of the keys,
  and the documents that a collection has gained between two worlds.
\<close>

datatype kind = KNone | KInt | KStr | KTime

fun kind_of :: "pyvalue \<Rightarrow> kind" where
  "kind_of VNone = KNone"
| "kind_of (VInt i) = KInt"
| "kind_of (VStr s) = KStr"
| "kind_of (VTime t) = KTime"

definition attribute_shape :: "document \<Rightarrow> kind list" where
  "attribute_shape d = map (kind_of \<circ> snd) d"

definition appended :: "document list \<Rightarrow> document list \<Rightarrow> document list" where
  "appended before after = drop (length before) after"

section \<open>Sample inputs\<close>

text \<open>
  A database with no document yet, a message, and two environments: one where every
  collaborator that can fail does, one where all of them answer.
\<close>

definition fresh_world :: world where
  "fresh_world = \<lparr>collection = [], chat_history_collection = [],
                   file_metadata_collection = [], effects = []\<rparr>"

definition sample_user :: tg_user where
  "sample_user = \<lparr>user_id = 7, first_name = ''Ada'', username = Some ''ada''\<rparr>"

definition sample_message :: message where
  "sample_message = \<lparr>from_user = sample_user, chat_id = 7, msg_text = Some ''hello'',
                      contact = Some ''+4912345'', document = None,
                      photo = [PhotoSize ''small'', PhotoSize ''large'']\<rparr>"

definition sample_response :: response where
  "sample_response = \<lparr>status_code = 200,
      organic_results = Some [[(''snippet'', Some ''S''), (''link'', Some ''L'')]]\<rparr>"

definition failing_env :: env where
  "failing_env = \<lparr>now = 1000, serp_api_key = Some ''key'',
      send_message = (\<lambda>t. Inl (Failure ''quota exceeded'')),
      get_file = (\<lambda>fid. Inr (File (''photos/'' @ fid))),
      download_as_bytearray = (\<lambda>f. Inr [255, 216]),
      image_open = (\<lambda>b. Inl (Failure ''cannot identify image file'')),
      generate_content = (\<lambda>p i. Inl (Failure ''quota exceeded'')),
      requests_get = (\<lambda>u p. Inr \<lparr>status_code = 503, organic_results = None\<rparr>),
      insert_one_raises = (\<lambda>d. None),
      reply_text_raises = (\<lambda>t. None)\<rparr>"

definition working_env :: env where
  "working_env = \<lparr>now = 1000, serp_api_key = Some ''key'',
      send_message = (\<lambda>t. Inr ''Hi there''),
      get_file = (\<lambda>fid. Inr (File (''photos/'' @ fid))),
      download_as_bytearray = (\<lambda>f. Inr [255, 216]),
      image_open = (\<lambda>b. Inr (Image b)),
      generate_content = (\<lambda>p i. Inr ''A cat''),
      requests_get = (\<lambda>u p. Inr sample_response),
      insert_one_raises = (\<lambda>d. None),
      reply_text_raises = (\<lambda>t. None)\<rparr>"



section \<open>The user store\<close>

lemma find_one_matches: "find_one k v docs = Some d \<Longrightarrow> matches k v d"
  by (auto simp: find_one_def find_Some_iff)

lemma matches_nonempty: "matches k v d \<Longrightarrow> d \<noteq> []"
  by (auto simp: matches_def)

lemma truthy_find_one: "truthy (find_one k v docs) = (find_one k v docs \<noteq> None)"
  by (cases "find_one k v docs") (auto dest: find_one_matches matches_nonempty)

lemma find_one_None_iff: "find_one k v docs = None \<longleftrightarrow> filter (matches k v) docs = []"
  by (auto simp: find_one_def find_None_iff filter_empty_conv)

lemma update_one_no_match: "find_one k v docs = None \<Longrightarrow> update_one k v f x docs = docs"
  by (induction docs) (auto simp: find_one_def split: if_splits)

lemma register_user_existing:
  "find_one ''chat_id'' (VInt uid) (collection w) \<noteq> None \<Longrightarrow> register_user uid f u w = w"
  by (simp add: register_user_def truthy_find_one)

lemma register_user_new:
  "find_one ''chat_id'' (VInt uid) (collection w) = None \<Longrightarrow>
   register_user uid f u w =
     w\<lparr>collection := collection w @
          [[(''chat_id'', VInt uid), (''first_name'', VStr f),
            (''username'', opt_value u), (''phone_number'', VNone)]],
        effects := effects w @
          [Inserted Users [(''chat_id'', VInt uid), (''first_name'', VStr f),
                           (''username'', opt_value u), (''phone_number'', VNone)],
           LogInfo (''Registered new user: '' @ f @ '' (@'' @ py_str u @ '')'')]\<rparr>"
  by (simp add: register_user_def truthy_find_one emit_def insert_one_def Let_def)

lemma registered_after:
  "find_one ''chat_id'' (VInt uid) (collection (register_user uid f u w)) \<noteq> None"
proof (cases "find_one ''chat_id'' (VInt uid) (collection w)")
  case None
  then show ?thesis
    by (simp add: register_user_new find_one_None_iff matches_def)
next
  case (Some d)
  then show ?thesis by (simp add: register_user_existing)
qed

lemma register_user_keeps:
  assumes "length (filter (matches ''chat_id'' (VInt c)) (collection w)) \<le> 1"
  shows "length (filter (matches ''chat_id'' (VInt c))
           (collection (register_user uid f u w))) \<le> 1"
proof (cases "find_one ''chat_id'' (VInt uid) (collection w)")
  case None
  then have "c = uid \<Longrightarrow> filter (matches ''chat_id'' (VInt c)) (collection w) = []"
    by (simp add: find_one_None_iff)
  with None assms show ?thesis
    by (cases "c = uid") (simp_all add: register_user_new matches_def)
next
  case (Some d)
  with assms show ?thesis by (simp add: register_user_existing)
qed

lemma fold_register_keeps:
  "\<forall>c. length (filter (matches ''chat_id'' (VInt c)) (collection w)) \<le> 1 \<Longrightarrow>
   length (filter (matches ''chat_id'' (VInt c))
     (collection (fold (\<lambda>(i, f, u). register_user i f u) calls w))) \<le> 1"
proof (induction calls arbitrary: w)
  case Nil
  then show ?case by simp
next
  case (Cons a calls)
  obtain i f u where a: "a = (i, f, u)" by (cases a)
  have "\<forall>c. length (filter (matches ''chat_id'' (VInt c))
          (collection (register_user i f u w))) \<le> 1"
    using Cons.prems register_user_keeps by blast
  from Cons.IH [OF this] show ?case by (simp add: a)
qed

text \<open>
  Claim C1. Registering is idempotent. A second \<open>register_user\<close> for the same chat
  identifier, whatever name and handle it carries, leaves the world as the first call left
  it: no document is inserted, nothing is logged. And when the user collection holds at
  most one document per chat identifier (an empty collection does), it still does after
  any sequence of \<open>register_user\<close> calls.
\<close>

theorem register_user_idempotent:
  "register_user uid f2 u2 (register_user uid f1 u1 w) = register_user uid f1 u1 w
   \<and> ((\<forall>c. length (filter (matches ''chat_id'' (VInt c)) (collection w)) \<le> 1) \<longrightarrow>
        (\<forall>c. length (filter (matches ''chat_id'' (VInt c))
           (collection (fold (\<lambda>(i, f, u). register_user i f u) calls w))) \<le> 1))"
  using registered_after [of uid f1 u1 w] fold_register_keeps [of w _ calls]
  by (simp add: register_user_existing)

theorem register_user_idempotent_witness:
  "(\<forall>c. length (filter (matches ''chat_id'' (VInt c)) (collection fresh_world)) \<le> 1)
   \<and> register_user 7 ''Bob'' None (register_user 7 ''Ada'' (Some ''ada'') fresh_world)
       = register_user 7 ''Ada'' (Some ''ada'') fresh_world
   \<and> collection (register_user 7 ''Ada'' (Some ''ada'') fresh_world)
       = [[(''chat_id'', VInt 7), (''first_name'', VStr ''Ada''),
           (''username'', VStr ''ada''), (''phone_number'', VNone)]]
   \<and> (\<forall>c. length (filter (matches ''chat_id'' (VInt c))
         (collection (fold (\<lambda>(i, f, u). register_user i f u)
            [(7, ''Ada'', Some ''ada''), (8, ''Eve'', None), (7, ''Bob'', None)]
            fresh_world))) \<le> 1)"
proof -
  have h: "\<forall>c. length (filter (matches ''chat_id'' (VInt c)) (collection fresh_world)) \<le> 1"
    by (simp add: fresh_world_def)
  have r: "collection (register_user 7 ''Ada'' (Some ''ada'') fresh_world)
       = [[(''chat_id'', VInt 7), (''first_name'', VStr ''Ada''),
           (''username'', VStr ''ada''), (''phone_number'', VNone)]]"
    by (simp add: register_user_def fresh_world_def find_one_def emit_def insert_one_def Let_def)
  from register_user_idempotent
         [of 7 "''Bob''" None "''Ada''" "Some ''ada''" fresh_world
             "[(7, ''Ada'', Some ''ada''), (8, ''Eve'', None), (7, ''Bob'', None)]"]
       h r
  show ?thesis by blast
qed

text \<open>
  Claim C7. Setting the phone number of a chat identifier that has no user document
  changes no document and raises nothing: \<open>handle_contact\<close> returns normally, the three
  collections are as before, and its only effect is the confirmation message.
\<close>

theorem handle_contact_unregistered:
  assumes "contact msg = Some phone_number"
    and "find_one ''chat_id'' (VInt (user_id (from_user msg))) (collection w) = None"
  shows "handle_contact msg w =
           (Inr 0, w\<lparr>effects := effects w @
              [Sent (chat_id msg)
                 (''Thank you for sharing your phone number: '' @ phone_number
                    @ ''. Registration complete!'') None]\<rparr>)"
  using assms by (simp add: handle_contact_def update_one_no_match reply_text_def emit_def)

theorem handle_contact_unregistered_witness:
  "contact sample_message = Some ''+4912345''
   \<and> find_one ''chat_id'' (VInt (user_id (from_user sample_message))) (collection fresh_world)
       = None
   \<and> handle_contact sample_message fresh_world =
       (Inr 0,
        \<lparr>collection = [], chat_history_collection = [], file_metadata_collection = [],
         effects = [Sent 7
           ''Thank you for sharing your phone number: +4912345. Registration complete!''
           None]\<rparr>)"
proof -
  have a: "contact sample_message = Some ''+4912345''"
    by (simp add: sample_message_def)
  have b: "find_one ''chat_id'' (VInt (user_id (from_user sample_message)))
             (collection fresh_world) = None"
    by (simp add: fresh_world_def find_one_def)
  from handle_contact_unregistered [OF a b] a b show ?thesis
    by (simp add: fresh_world_def sample_message_def)
qed

section \<open>Registration\<close>

text \<open>
  Claim C8. \<^verbatim>\<open>/start\<close> from a chat identifier that has no user document inserts
  exactly one document, with the sender's identifier, name and handle and with
  \<^verbatim>\<open>phone_number\<close> \<open>None\<close>, and after that sends the welcome text with a one-button
  keyboard that requests the contact.
\<close>

theorem start_new_user:
  assumes "find_one ''chat_id'' (VInt (user_id (from_user msg))) (collection w) = None"
  shows "(let user_data = [(''chat_id'', VInt (user_id (from_user msg))),
                           (''first_name'', VStr (first_name (from_user msg))),
                           (''username'', opt_value (username (from_user msg))),
                           (''phone_number'', VNone)]
          in start msg w =
               (Inr 0,
                w\<lparr>collection := collection w @ [user_data],
                  effects := effects w @
                    [Inserted Users user_data,
                     LogInfo (''Registered new user: '' @ first_name (from_user msg)
                                @ '' (@'' @ py_str (username (from_user msg)) @ '')''),
                     Sent (chat_id msg)
                       ''Welcome to the User Registration Bot! Please share your phone number to continue.''
                       (Some (ReplyKeyboardMarkup
                          [[\<lparr>button_text = ''Share my phone number'', request_contact = True\<rparr>]]
                          True True))]\<rparr>))"
  using assms by (simp add: start_def register_user_new reply_text_def emit_def Let_def)

theorem start_new_user_witness:
  "find_one ''chat_id'' (VInt (user_id (from_user sample_message))) (collection fresh_world) = None
   \<and> start sample_message fresh_world =
       (Inr 0,
        \<lparr>collection = [[(''chat_id'', VInt 7), (''first_name'', VStr ''Ada''),
                        (''username'', VStr ''ada''), (''phone_number'', VNone)]],
         chat_history_collection = [], file_metadata_collection = [],
         effects =
           [Inserted Users [(''chat_id'', VInt 7), (''first_name'', VStr ''Ada''),
                            (''username'', VStr ''ada''), (''phone_number'', VNone)],
            LogInfo ''Registered new user: Ada (@ada)'',
            Sent 7
              ''Welcome to the User Registration Bot! Please share your phone number to continue.''
              (Some (ReplyKeyboardMarkup
                 [[\<lparr>button_text = ''Share my phone number'', request_contact = True\<rparr>]]
                 True True))]\<rparr>)"
proof -
  have h: "find_one ''chat_id'' (VInt (user_id (from_user sample_message)))
             (collection fresh_world) = None"
    by (simp add: fresh_world_def find_one_def)
  from start_new_user [OF h] h show ?thesis
    by (simp add: fresh_world_def sample_message_def sample_user_def Let_def)
qed

section \<open>The AI chat\<close>




section \<open>The web search\<close>

text \<open>
  Claim C3. When the search provider answers with status 200 and a list of results whose
  first one has the snippet \<open>S\<close> and the link \<open>L\<close>, \<open>web_search\<close> returns the
  heading, then \<open>S\<close>, then three dots and an empty line, then
  \<^verbatim>\<open>For more details, check the full article here: \<close> and \<open>L\<close>; and it appends
  exactly one document to the conversation log, which holds the calling chat identifier,
  the query, that same text and the time.
\<close>

theorem web_search_top_result:
  assumes "requests_get env ''https://serpapi.com/search''
             [(''q'', Some query), (''api_key'', serp_api_key env)] = Inr r"
    and "status_code r = 200"
    and "organic_results r = Some (first_result # others)"
    and "map_of first_result ''snippet'' = Some (Some S)"
    and "map_of first_result ''link'' = Some (Some L)"
  shows "(let summary = ''Here is a summary for your query:\<newline>\<newline>''
                        @ S @ ''...\<newline>\<newline>''
                        @ ''For more details, check the full article here: '' @ L;
              entry = [(''chat_id'', VInt chat), (''query'', VStr query),
                       (''summary'', VStr summary), (''timestamp'', VTime (now env))]
          in web_search env query chat w =
               (Inr summary,
                w\<lparr>chat_history_collection := chat_history_collection w @ [entry],
                  effects := effects w @
                    [HttpGet ''https://serpapi.com/search''
                       [(''q'', Some query), (''api_key'', serp_api_key env)],
                     Inserted Chat_history entry]\<rparr>))"
  using assms
  by (simp add: web_search_def emit_def insert_one_def get_default_def Let_def)

theorem web_search_top_result_witness:
  "web_search working_env ''cats'' 7 fresh_world =
     (Inr (''Here is a summary for your query:\<newline>\<newline>S...\<newline>\<newline>''
           @ ''For more details, check the full article here: L''),
      \<lparr>collection = [],
       chat_history_collection =
         [[(''chat_id'', VInt 7), (''query'', VStr ''cats''),
           (''summary'', VStr (''Here is a summary for your query:\<newline>\<newline>S...\<newline>\<newline>''
              @ ''For more details, check the full article here: L'')),
           (''timestamp'', VTime 1000)]],
       file_metadata_collection = [],
       effects =
         [HttpGet ''https://serpapi.com/search'' [(''q'', Some ''cats''), (''api_key'', Some ''key'')],
          Inserted Chat_history
            [(''chat_id'', VInt 7), (''query'', VStr ''cats''),
             (''summary'', VStr (''Here is a summary for your query:\<newline>\<newline>S...\<newline>\<newline>''
                @ ''For more details, check the full article here: L'')),
             (''timestamp'', VTime 1000)]]\<rparr>)"
proof -
  have a: "requests_get working_env ''https://serpapi.com/search''
             [(''q'', Some ''cats''), (''api_key'', serp_api_key working_env)] = Inr sample_response"
    by (simp add: working_env_def)
  have b: "status_code sample_response = 200"
    by (simp add: sample_response_def)
  have c: "organic_results sample_response
             = Some ([(''snippet'', Some ''S''), (''link'', Some ''L'')] # [])"
    by (simp add: sample_response_def)
  have d: "map_of [(''snippet'', Some ''S''), (''link'', Some ''L'')] ''snippet'' = Some (Some ''S'')"
    by simp
  have e: "map_of [(''snippet'', Some ''S''), (''link'', Some ''L'')] ''link'' = Some (Some ''L'')"
    by simp
  from web_search_top_result [OF a b c d e, of 7 fresh_world] show ?thesis
    by (simp add: fresh_world_def working_env_def Let_def)
qed

text \<open>
  Claim C4. When the search provider answers with status 200 and an empty list of
  results, \<open>web_search\<close> returns exactly the fixed no-results text and stores nothing:
  its only effect is the HTTP request.
\<close>

theorem web_search_no_results:
  assumes "requests_get env ''https://serpapi.com/search''
             [(''q'', Some query), (''api_key'', serp_api_key env)] = Inr r"
    and "status_code r = 200"
    and "organic_results r = Some []"
  shows "web_search env query chat w =
           (Inr ''Sorry, I couldn't find relevant results for your query.'',
            w\<lparr>effects := effects w @
               [HttpGet ''https://serpapi.com/search''
                  [(''q'', Some query), (''api_key'', serp_api_key env)]]\<rparr>)"
  using assms by (simp add: web_search_def emit_def)

theorem web_search_no_results_witness:
  "web_search
     (working_env\<lparr>requests_get := (\<lambda>u p. Inr \<lparr>status_code = 200, organic_results = Some []\<rparr>)\<rparr>)
     ''cats'' 7 fresh_world =
     (Inr ''Sorry, I couldn't find relevant results for your query.'',
      \<lparr>collection = [], chat_history_collection = [], file_metadata_collection = [],
       effects = [HttpGet ''https://serpapi.com/search''
                    [(''q'', Some ''cats''), (''api_key'', Some ''key'')]]\<rparr>)"
  using web_search_no_results
          [of "working_env\<lparr>requests_get :=
                 (\<lambda>u p. Inr \<lparr>status_code = 200, organic_results = Some []\<rparr>)\<rparr>"
              "''cats''" "\<lparr>status_code = 200, organic_results = Some []\<rparr>" 7 fresh_world]
  by (simp add: working_env_def fresh_world_def)

text \<open>
  Claim C5. When the search provider answers with any status other than 200,
  \<open>web_search\<close> returns the fixed error text and stores nothing: its only effect is the
  HTTP request.
\<close>

theorem web_search_bad_status:
  assumes "requests_get env ''https://serpapi.com/search''
             [(''q'', Some query), (''api_key'', serp_api_key env)] = Inr r"
    and "status_code r \<noteq> 200"
  shows "web_search env query chat w =
           (Inr ''Sorry, I encountered an error while fetching search results.'',
            w\<lparr>effects := effects w @
               [HttpGet ''https://serpapi.com/search''
                  [(''q'', Some query), (''api_key'', serp_api_key env)]]\<rparr>)"
  using assms by (simp add: web_search_def emit_def)

theorem web_search_bad_status_witness:
  "web_search failing_env ''cats'' 7 fresh_world =
     (Inr ''Sorry, I encountered an error while fetching search results.'',
      \<lparr>collection = [], chat_history_collection = [], file_metadata_collection = [],
       effects = [HttpGet ''https://serpapi.com/search''
                    [(''q'', Some ''cats''), (''api_key'', Some ''key'')]]\<rparr>)"
  using web_search_bad_status
          [of failing_env "''cats''" "\<lparr>status_code = 503, organic_results = None\<rparr>" 7 fresh_world]
  by (simp add: failing_env_def fresh_world_def)

text \<open>
  Claim C6. \<^verbatim>\<open>/websearch\<close> with no word after the command replies with the usage
  hint and does nothing else: no HTTP request is among its effects, and the result does
  not depend on what the search provider would have answered.
\<close>

theorem websearch_without_query:
  "websearch env msg [] w =
     (Inr (), w\<lparr>effects := effects w @
        [Sent (chat_id msg)
           ''Please provide a query to search for. Usage: /websearch <your_query>'' None]\<rparr>)"
  by (simp add: websearch_def reply_text_def emit_def)

theorem websearch_without_query_witness:
  "websearch working_env sample_message [] fresh_world =
     (Inr (),
      \<lparr>collection = [], chat_history_collection = [], file_metadata_collection = [],
       effects = [Sent 7
         ''Please provide a query to search for. Usage: /websearch <your_query>'' None]\<rparr>)"
  using websearch_without_query [of working_env sample_message fresh_world]
  by (simp add: fresh_world_def sample_message_def)

section \<open>The conversation log\<close>

lemma gemini_query_appended:
  "appended (chat_history_collection w) (chat_history_collection (snd (gemini_query env msg w)))
   = (case send_message env (msg_text msg) of
        Inl e \<Rightarrow> []
      | Inr bot_response \<Rightarrow>
          (let entry = [(''chat_id'', VInt (chat_id msg)),
                        (''user_input'', opt_value (msg_text msg)),
                        (''bot_response'', VStr bot_response), (''timestamp'', VTime (now env))]
           in case insert_one_raises env entry of Some e \<Rightarrow> [] | None \<Rightarrow> [entry]))"
  by (simp add: gemini_query_def appended_def reply_text_def emit_def insert_one_def Let_def
           split: sum.splits option.splits)

lemma web_search_appended:
  "appended (chat_history_collection w) (chat_history_collection (snd (web_search env query chat w)))
     = []
   \<or> (\<exists>summary.
        appended (chat_history_collection w)
          (chat_history_collection (snd (web_search env query chat w)))
        = [[(''chat_id'', VInt chat), (''query'', VStr query),
            (''summary'', VStr summary), (''timestamp'', VTime (now env))]])"
  by (simp add: web_search_def appended_def emit_def insert_one_def Let_def
           split: sum.splits list.splits option.splits)

text \<open>
  Claim C9. Every document that the AI chat (on a text message) or the web search appends
  to the conversation log has the same four attributes in the same order: an integer chat
  identifier, an input text, an output text and a timestamp. The first and the last are
  stored under \<^verbatim>\<open>chat_id\<close> and \<^verbatim>\<open>timestamp\<close> by both; the two texts are
  stored under \<^verbatim>\<open>user_input\<close> and \<^verbatim>\<open>bot_response\<close> by the AI chat, under
  \<^verbatim>\<open>query\<close> and \<^verbatim>\<open>summary\<close> by the web search.
\<close>

theorem conversation_records_same_shape:
  assumes "msg_text msg = Some user_input"
  shows "list_all (\<lambda>d. attribute_shape d = [KInt, KStr, KStr, KTime]
                       \<and> map fst d = [''chat_id'', ''user_input'', ''bot_response'', ''timestamp''])
           (appended (chat_history_collection w)
              (chat_history_collection (snd (gemini_query env msg w))))
       \<and> list_all (\<lambda>d. attribute_shape d = [KInt, KStr, KStr, KTime]
                       \<and> map fst d = [''chat_id'', ''query'', ''summary'', ''timestamp''])
           (appended (chat_history_collection w)
              (chat_history_collection (snd (web_search env query chat w))))"
proof
  show "list_all (\<lambda>d. attribute_shape d = [KInt, KStr, KStr, KTime]
                       \<and> map fst d = [''chat_id'', ''user_input'', ''bot_response'', ''timestamp''])
           (appended (chat_history_collection w)
              (chat_history_collection (snd (gemini_query env msg w))))"
    using assms
    by (simp add: gemini_query_appended attribute_shape_def Let_def
          split: sum.splits option.splits)
next
  from web_search_appended [of w env query chat]
  show "list_all (\<lambda>d. attribute_shape d = [KInt, KStr, KStr, KTime]
                       \<and> map fst d = [''chat_id'', ''query'', ''summary'', ''timestamp''])
           (appended (chat_history_collection w)
              (chat_history_collection (snd (web_search env query chat w))))"
    by (auto simp: attribute_shape_def)
qed

theorem conversation_records_same_shape_witness:
  "msg_text sample_message = Some ''hello''
   \<and> appended (chat_history_collection fresh_world)
       (chat_history_collection (snd (gemini_query working_env sample_message fresh_world)))
     = [[(''chat_id'', VInt 7), (''user_input'', VStr ''hello''),
         (''bot_response'', VStr ''Hi there''), (''timestamp'', VTime 1000)]]
   \<and> length (appended (chat_history_collection fresh_world)
       (chat_history_collection (snd (web_search working_env ''cats'' 7 fresh_world)))) = 1
   \<and> list_all (\<lambda>d. attribute_shape d = [KInt, KStr, KStr, KTime]
                   \<and> map fst d = [''chat_id'', ''user_input'', ''bot_response'', ''timestamp''])
       (appended (chat_history_collection fresh_world)
          (chat_history_collection (snd (gemini_query working_env sample_message fresh_world))))
   \<and> list_all (\<lambda>d. attribute_shape d = [KInt, KStr, KStr, KTime]
                   \<and> map fst d = [''chat_id'', ''query'', ''summary'', ''timestamp''])
       (appended (chat_history_collection fresh_world)
          (chat_history_collection (snd (web_search working_env ''cats'' 7 fresh_world))))"
proof -
  have h: "msg_text sample_message = Some ''hello''"
    by (simp add: sample_message_def)
  have g: "appended (chat_history_collection fresh_world)
       (chat_history_collection (snd (gemini_query working_env sample_message fresh_world)))
     = [[(''chat_id'', VInt 7), (''user_input'', VStr ''hello''),
         (''bot_response'', VStr ''Hi there''), (''timestamp'', VTime 1000)]]"
    by (simp add: gemini_query_appended working_env_def sample_message_def)
  have s: "length (appended (chat_history_collection fresh_world)
       (chat_history_collection (snd (web_search working_env ''cats'' 7 fresh_world)))) = 1"
    by (simp add: web_search_def appended_def emit_def insert_one_def Let_def
          working_env_def sample_response_def fresh_world_def)
  from conversation_records_same_shape [OF h, of fresh_world working_env "''cats''" 7] h g s
  show ?thesis by blast
qed

section \<open>The photo handler\<close>

text \<open>
  Claim C10. In \<open>handle_file\<close> the choice of the file, the request for its path, its
  download and its decoding come before the \<^verbatim>\<open>try\<close> block. When one of them
  raises, the exception leaves the handler and the world is as before: no apology is
  sent, nothing is logged or stored. When all four succeed and the vision model raises,
  the handler returns normally, logs the error and sends the apology.
\<close>

theorem handle_file_failure_before_try:
  "((select_file msg = Inl e
      \<or> (\<exists>file. select_file msg = Inr file
           \<and> (get_file env (file_id file) = Inl e
               \<or> (\<exists>info. get_file env (file_id file) = Inr info
                    \<and> (download_as_bytearray env info = Inl e
                        \<or> (\<exists>raw. download_as_bytearray env info = Inr raw
                             \<and> image_open env raw = Inl e))))))
     \<longrightarrow> handle_file env msg w = (Inl e, w))
   \<and> ((\<exists>file info raw file_data. select_file msg = Inr file
          \<and> get_file env (file_id file) = Inr info
          \<and> download_as_bytearray env info = Inr raw
          \<and> image_open env raw = Inr file_data
          \<and> generate_content env ''Analyse this image and generate response'' file_data = Inl e)
       \<longrightarrow> handle_file env msg w =
             (Inr (), w\<lparr>effects := effects w @
                [LogError (''Error analyzing file with Gemini: '' @ exn_str e),
                 Sent (chat_id msg)
                   ''Sorry, I couldn't analyze the file right now. Please try again later.''
                   None]\<rparr>))"
  by (auto simp: handle_file_def reply_text_def emit_def Let_def)

theorem handle_file_failure_before_try_witness:
  "select_file sample_message = Inr (PhotoSize ''large'')
   \<and> get_file failing_env ''large'' = Inr (File ''photos/large'')
   \<and> download_as_bytearray failing_env (File ''photos/large'') = Inr [255, 216]
   \<and> image_open failing_env [255, 216] = Inl (Failure ''cannot identify image file'')
   \<and> handle_file failing_env sample_message fresh_world
       = (Inl (Failure ''cannot identify image file''), fresh_world)
   \<and> handle_file (failing_env\<lparr>image_open := (\<lambda>b. Inr (Image b))\<rparr>) sample_message fresh_world
       = (Inr (),
          \<lparr>collection = [], chat_history_collection = [], file_metadata_collection = [],
           effects = [LogError ''Error analyzing file with Gemini: quota exceeded'',
             Sent 7 ''Sorry, I couldn't analyze the file right now. Please try again later.''
               None]\<rparr>)"
proof -
  have a: "select_file sample_message = Inr (PhotoSize ''large'')"
    by (simp add: select_file_def sample_message_def)
  have b: "get_file failing_env ''large'' = Inr (File ''photos/large'')"
    by (simp add: failing_env_def)
  have c: "download_as_bytearray failing_env (File ''photos/large'') = Inr [255, 216]"
    by (simp add: failing_env_def)
  have d: "image_open failing_env [255, 216] = Inl (Failure ''cannot identify image file'')"
    by (simp add: failing_env_def)
  have early: "handle_file failing_env sample_message fresh_world
       = (Inl (Failure ''cannot identify image file''), fresh_world)"
    using handle_file_failure_before_try
            [of sample_message "Failure ''cannot identify image file''" failing_env fresh_world]
          a b c d
    by auto
  have late: "handle_file (failing_env\<lparr>image_open := (\<lambda>b. Inr (Image b))\<rparr>)
                sample_message fresh_world
       = (Inr (),
          \<lparr>collection = [], chat_history_collection = [], file_metadata_collection = [],
           effects = [LogError ''Error analyzing file with Gemini: quota exceeded'',
             Sent 7 ''Sorry, I couldn't analyze the file right now. Please try again later.''
               None]\<rparr>)"
    using handle_file_failure_before_try
            [of sample_message "Failure ''quota exceeded''"
                "failing_env\<lparr>image_open := (\<lambda>b. Inr (Image b))\<rparr>" fresh_world]
          a
    by (simp add: failing_env_def fresh_world_def sample_message_def)
  from a b c d early late show ?thesis by blast
qed

end
